theory Spec2Isabelle
  imports Main
begin

section \<open>FHIR views: a shallow embedding of \<^verbatim>\<open>google/fhir/views/views.py\<close>\<close>

text \<open>
  The module defines the class \<^verbatim>\<open>View\<close>: a resource type, a root expression builder, a
  FHIRPath context, the selected fields and the constraints. Its methods build new views
  (\<^verbatim>\<open>select\<close>, \<^verbatim>\<open>where\<close>), resolve attributes (\<^verbatim>\<open>__getattr__\<close>, \<^verbatim>\<open>__dir__\<close>), find
  the expression of the patient id and render the view as text.

  The expression builder, the FHIRPath context, the structure definitions and the path
  utilities live in other modules. They are taken as parameters: a record of the
  operations that \<^verbatim>\<open>views.py\<close> calls on them, over abstract types of builders \<open>'b\<close>,
  contexts \<open>'c\<close>, structure definitions \<open>'sd\<close> and FHIRPath data types \<open>'t\<close>.
\<close>

subsection \<open>Exceptions\<close>

text \<open>
  \<^verbatim>\<open>where\<close> raises \<^verbatim>\<open>ValueError\<close> with one argument, a pair of strings (the source
  writes a parenthesised, comma-separated pair inside the call). \<^verbatim>\<open>__getattr__\<close> raises
  \<^verbatim>\<open>AttributeError\<close> with a message. \<open>Raised\<close> stands for any other exception that a
  collaborator raises.
\<close>

datatype error =
    ValueError "string \<times> string"
  | AttributeError string
  | Raised string

subsection \<open>The collaborators\<close>

record ('b, 'c, 'sd, 't) collaborators =
  return_type :: "'b \<Rightarrow> 't"
    \<comment> \<open>\<^verbatim>\<open>builder._node.return_type()\<close>\<close>
  Boolean :: "'t"
    \<comment> \<open>\<^verbatim>\<open>_fhir_path_data_types.Boolean\<close>\<close>
  to_fhir_path :: "'b \<Rightarrow> string"
    \<comment> \<open>\<^verbatim>\<open>builder._node.to_fhir_path()\<close>\<close>
  fhir_path :: "'b \<Rightarrow> string"
    \<comment> \<open>the property \<^verbatim>\<open>builder.fhir_path\<close>\<close>
  builder_getattr :: "'b \<Rightarrow> string \<Rightarrow> error + 'b option"
    \<comment> \<open>\<^verbatim>\<open>getattr(builder, name)\<close>: raises, or returns a value that may be \<^verbatim>\<open>None\<close>\<close>
  builder_dunder_getattr :: "'b \<Rightarrow> string \<Rightarrow> error + 'b"
    \<comment> \<open>the direct call \<^verbatim>\<open>builder.__getattr__(name)\<close>\<close>
  idFor :: "'b \<Rightarrow> string \<Rightarrow> error + 'b"
    \<comment> \<open>\<^verbatim>\<open>builder.idFor(resource_type)\<close>\<close>
  fhir_path_fields :: "'b \<Rightarrow> string list"
    \<comment> \<open>\<^verbatim>\<open>builder.fhir_path_fields()\<close>\<close>
  get_structure_definition :: "'c \<Rightarrow> string \<Rightarrow> error + 'sd"
    \<comment> \<open>\<^verbatim>\<open>context.get_structure_definition(url)\<close>\<close>
  structdef_id_value :: "'sd \<Rightarrow> string"
    \<comment> \<open>\<^verbatim>\<open>structdef.id.value\<close>\<close>
  get_patient_reference_element_paths :: "'sd \<Rightarrow> string list"
    \<comment> \<open>\<^verbatim>\<open>_utils.get_patient_reference_element_paths(structdef)\<close>\<close>
  dir_type :: "string list"
    \<comment> \<open>\<^verbatim>\<open>dir(type(self))\<close>: the names that the class \<^verbatim>\<open>View\<close> itself declares\<close>

subsection \<open>The class \<^verbatim>\<open>View\<close>\<close>

text \<open>
  \<^verbatim>\<open>_fields\<close> (here \<open>view_fields\<close>) is an \<^verbatim>\<open>immutabledict\<close>, which keeps the
  insertion order: an association list, whose keys are distinct when it comes from a
  Python dictionary. \<^verbatim>\<open>_constraints\<close> is a tuple: a list.
\<close>

record ('b, 'c) view =
  structdef_url :: string
  root_builder :: 'b
  fhir_context :: 'c
  view_fields :: "(string \<times> 'b) list"
  constraints :: "'b list"

text \<open>The constructor \<^verbatim>\<open>View.__init__\<close> stores its five arguments.\<close>

definition View ::
  "string \<Rightarrow> 'b \<Rightarrow> 'c \<Rightarrow> (string \<times> 'b) list \<Rightarrow> 'b list \<Rightarrow> ('b, 'c) view" where
  "View url root_b ctx fs cs =
     \<lparr>structdef_url = url, root_builder = root_b, fhir_context = ctx,
      view_fields = fs, constraints = cs\<rparr>"

text \<open>\<^verbatim>\<open>select\<close>: a new view with the given fields; everything else is taken from \<open>self\<close>.\<close>

definition select :: "('b, 'c) view \<Rightarrow> (string \<times> 'b) list \<Rightarrow> ('b, 'c) view" where
  "select self fs =
     View (structdef_url self) (root_builder self) (fhir_context self) fs (constraints self)"

text \<open>
  \<^verbatim>\<open>where\<close>: the loop raises at the first constraint whose return type is not
  \<^verbatim>\<open>Boolean\<close>; when the loop ends, the new view holds the old constraints followed by
  the new ones.
\<close>

fun check_constraints :: "('b, 'c, 'sd, 't) collaborators \<Rightarrow> 'b list \<Rightarrow> error + unit" where
  "check_constraints ext [] = Inr ()"
| "check_constraints ext (constraint # rest) =
     (if return_type ext constraint \<noteq> Boolean ext
      then Inl (ValueError (''view `where` expressions must be boolean predicates'',
                            '' got `'' @ to_fhir_path ext constraint @ ''`''))
      else check_constraints ext rest)"

definition where_view ::
  "('b, 'c, 'sd, 't) collaborators \<Rightarrow> ('b, 'c) view \<Rightarrow> 'b list \<Rightarrow> error + ('b, 'c) view" where
  "where_view ext self cs =
     (case check_constraints ext cs of
        Inl e \<Rightarrow> Inl e
      | Inr _ \<Rightarrow>
          Inr (View (structdef_url self) (root_builder self) (fhir_context self)
                 (view_fields self) (constraints self @ cs)))"

subsection \<open>Attribute resolution\<close>

text \<open>
  \<^verbatim>\<open>keyword.iskeyword\<close> of the Python standard library tests membership in
  \<^verbatim>\<open>keyword.kwlist\<close>, the 35 reserved words of Python 3 (soft keywords are not in it).
\<close>

definition kwlist :: "string list" where
  "kwlist =
     [''False'', ''None'', ''True'', ''and'', ''as'', ''assert'', ''async'', ''await'',
      ''break'', ''class'', ''continue'', ''def'', ''del'', ''elif'', ''else'', ''except'',
      ''finally'', ''for'', ''from'', ''global'', ''if'', ''import'', ''in'', ''is'',
      ''lambda'', ''nonlocal'', ''not'', ''or'', ''pass'', ''raise'', ''return'', ''try'',
      ''while'', ''with'', ''yield'']"

definition iskeyword :: "string \<Rightarrow> bool" where
  "iskeyword s = (s \<in> set kwlist)"

text \<open>\<^verbatim>\<open>s.endswith(suffix)\<close> of Python strings.\<close>

definition endswith :: "string \<Rightarrow> string \<Rightarrow> bool" where
  "endswith s suffix =
     (length suffix \<le> length s \<and> drop (length s - length suffix) s = suffix)"

text \<open>
  The first statement of \<^verbatim>\<open>__getattr__\<close>; \<^verbatim>\<open>name[:-1]\<close> is \<open>butlast name\<close>, also on
  the empty string.
\<close>

definition lookup_name :: "string \<Rightarrow> string" where
  "lookup_name name =
     (if endswith name ''_'' \<and> iskeyword (butlast name) then butlast name else name)"

text \<open>
  \<^verbatim>\<open>self._fields.get(lookup)\<close> is \<open>map_of\<close> on the association list: \<^verbatim>\<open>None\<close> for a
  missing key. An exception of the root builder passes through.
\<close>

definition getattr_view ::
  "('b, 'c, 'sd, 't) collaborators \<Rightarrow> ('b, 'c) view \<Rightarrow> string \<Rightarrow> error + 'b" where
  "getattr_view ext self name =
     (let lookup = lookup_name name in
      case (if view_fields self \<noteq> []
            then Inr (map_of (view_fields self) lookup)
            else builder_getattr ext (root_builder self) lookup) of
        Inl e \<Rightarrow> Inl e
      | Inr None \<Rightarrow> Inl (AttributeError (''No such field '' @ name))
      | Inr (Some expression) \<Rightarrow> Inr expression)"

text \<open>\<^verbatim>\<open>__dir__\<close>: the field names, extended by the names of the class.\<close>

definition dir_view :: "('b, 'c, 'sd, 't) collaborators \<Rightarrow> ('b, 'c) view \<Rightarrow> string list" where
  "dir_view ext self =
     (if view_fields self \<noteq> []
      then map fst (view_fields self)
      else fhir_path_fields ext (root_builder self)) @ dir_type ext"

subsection \<open>The patient id\<close>

text \<open>
  The last statement of \<^verbatim>\<open>get_patient_id_expression\<close>,
  \<^verbatim>\<open>return self._root_builder.__getattr__(patient_ref).idFor('patient')\<close>: an exception
  of either call passes through.
\<close>

definition patient_id_via ::
  "('b, 'c, 'sd, 't) collaborators \<Rightarrow> ('b, 'c) view \<Rightarrow> string \<Rightarrow> error + 'b option" where
  "patient_id_via ext self patient_ref =
     (case builder_dunder_getattr ext (root_builder self) patient_ref of
        Inl e \<Rightarrow> Inl e
      | Inr field \<Rightarrow>
          (case idFor ext field ''patient'' of
             Inl e \<Rightarrow> Inl e
           | Inr expression \<Rightarrow> Inr (Some expression)))"

text \<open>
  \<^verbatim>\<open>get_patient_id_expression\<close> returns \<^verbatim>\<open>Optional[Builder]\<close>: \<open>Inr None\<close> is the
  returned \<^verbatim>\<open>None\<close>. \<^verbatim>\<open>patients[0]\<close> is read only after the emptiness test, so the
  case distinction on the list covers both.
\<close>

definition get_patient_id_expression ::
  "('b, 'c, 'sd, 't) collaborators \<Rightarrow> ('b, 'c) view \<Rightarrow> error + 'b option" where
  "get_patient_id_expression ext self =
     (case get_structure_definition ext (fhir_context self) (structdef_url self) of
        Inl e \<Rightarrow> Inl e
      | Inr structdef \<Rightarrow>
          if structdef_id_value ext structdef = ''Patient''
          then builder_getattr ext (root_builder self) ''id''
          else
            (case get_patient_reference_element_paths ext structdef of
               [] \<Rightarrow> Inr None
             | first # others \<Rightarrow>
                 patient_id_via ext self
                   (if ''subject'' \<in> set (first # others) then ''subject'' else first)))"

subsection \<open>Rendering\<close>

text \<open>\<^verbatim>\<open>sep.join(strings)\<close> of Python strings.\<close>

fun join :: "string \<Rightarrow> string list \<Rightarrow> string" where
  "join sep [] = []"
| "join sep [x] = x"
| "join sep (x # y # ys) = x @ sep @ join sep (y # ys)"

definition newline :: "string" where
  "newline = [CHR 0x0A]"

text \<open>The two loops of \<^verbatim>\<open>__str__\<close>, each appending one line to its list.\<close>

fun select_strings_loop ::
  "('b, 'c, 'sd, 't) collaborators \<Rightarrow> string list \<Rightarrow> (string \<times> 'b) list \<Rightarrow> string list" where
  "select_strings_loop ext select_strings [] = select_strings"
| "select_strings_loop ext select_strings ((name, builder) # items) =
     select_strings_loop ext
       (select_strings @ [''  '' @ name @ '': '' @ fhir_path ext builder]) items"

fun where_strings_loop ::
  "('b, 'c, 'sd, 't) collaborators \<Rightarrow> string list \<Rightarrow> 'b list \<Rightarrow> string list" where
  "where_strings_loop ext where_strings [] = where_strings"
| "where_strings_loop ext where_strings (builder # builders) =
     where_strings_loop ext (where_strings @ [''  '' @ fhir_path ext builder]) builders"

definition str_view :: "('b, 'c, 'sd, 't) collaborators \<Rightarrow> ('b, 'c) view \<Rightarrow> string" where
  "str_view ext self =
     (let select_strings = select_strings_loop ext [] (view_fields self);
          where_strings = where_strings_loop ext [] (constraints self)
      in if where_strings = []
         then ''View<'' @ structdef_url self @ ''.select('' @ newline
              @ join ('','' @ newline) select_strings @ newline @ '')>''
         else ''View<'' @ structdef_url self @ ''.select('' @ newline
              @ join ('','' @ newline) select_strings @ newline
              @ '').where('' @ newline @ join ('','' @ newline) where_strings @ newline
              @ '')>'')"

subsection \<open>Views as objects\<close>

text \<open>
  A Python view is an object, and a method receives a reference to it. The heap is the
  list of the views allocated so far; a reference is an index into it. A call of the
  constructor allocates the new object behind the existing ones. \<^verbatim>\<open>select\<close> and
  \<^verbatim>\<open>where\<close> read \<open>self\<close> and contain no assignment to it; \<^verbatim>\<open>where\<close> allocates
  nothing when it raises.
\<close>

type_synonym ('b, 'c) heap = "('b, 'c) view list"

definition new_object :: "('b, 'c) heap \<Rightarrow> ('b, 'c) view \<Rightarrow> ('b, 'c) heap \<times> nat" where
  "new_object h obj = (h @ [obj], length h)"

definition select_obj ::
  "('b, 'c) heap \<Rightarrow> nat \<Rightarrow> (string \<times> 'b) list \<Rightarrow> ('b, 'c) heap \<times> nat" where
  "select_obj h self fs = new_object h (select (h ! self) fs)"

definition where_obj ::
  "('b, 'c, 'sd, 't) collaborators \<Rightarrow> ('b, 'c) heap \<Rightarrow> nat \<Rightarrow> 'b list
     \<Rightarrow> ('b, 'c) heap \<times> (error + nat)" where
  "where_obj ext h self cs =
     (case where_view ext (h ! self) cs of
        Inl e \<Rightarrow> (h, Inl e)
      | Inr obj \<Rightarrow> (case new_object h obj of (h', r) \<Rightarrow> (h', Inr r)))"

subsection \<open>A concrete instance of the collaborators\<close>

text \<open>
  A small instance on which the functions can be evaluated. A builder is its FHIRPath
  text with the name of its return type; a structure definition is its identifier; the
  context knows every identifier. The field \<open>active\<close> is boolean; an \<open>Observation\<close>
  refers to patients through \<open>performer\<close> and \<open>subject\<close>, an \<open>Appointment\<close> through
  \<open>participant\<close> and \<open>performer\<close>, a \<open>Medication\<close> through nothing.
\<close>

type_synonym example_builder = "string \<times> string"

definition example_fields :: "string list" where
  "example_fields = [''id'', ''active'', ''class'', ''subject'', ''performer'']"

definition example_ext :: "(example_builder, unit, string, string) collaborators" where
  "example_ext =
     \<lparr>return_type = snd,
      Boolean = ''Boolean'',
      to_fhir_path = fst,
      fhir_path = fst,
      builder_getattr = (\<lambda>b name.
        if name \<in> set example_fields
        then Inr (Some (fst b @ ''.'' @ name,
                        if name = ''active'' then ''Boolean'' else ''String''))
        else Inl (AttributeError (''No such field '' @ name))),
      builder_dunder_getattr = (\<lambda>b name. Inr (fst b @ ''.'' @ name, ''Reference'')),
      idFor = (\<lambda>b resource_type.
        Inr (fst b @ ''.idFor('' @ resource_type @ '')'', ''String'')),
      fhir_path_fields = (\<lambda>b. example_fields),
      get_structure_definition = (\<lambda>ctx url. Inr url),
      structdef_id_value = (\<lambda>structdef. structdef),
      get_patient_reference_element_paths = (\<lambda>structdef.
        if structdef = ''Observation'' then [''performer'', ''subject'']
        else if structdef = ''Appointment'' then [''participant'', ''performer'']
        else []),
      dir_type = [''select'', ''where'']\<rparr>"

definition example_view :: "string \<Rightarrow> (example_builder, unit) view" where
  "example_view url = View url (url, url) () [] []"

definition active_expr :: example_builder where
  "active_expr = (''Patient.active'', ''Boolean'')"

definition name_expr :: example_builder where
  "name_expr = (''Patient.name'', ''HumanName'')"

definition exists_expr :: example_builder where
  "exists_expr = (''Patient.name.exists()'', ''Boolean'')"

section \<open>Properties\<close>

subsection \<open>Auxiliary facts\<close>

lemma find_Some_member: "find P xs = Some x \<Longrightarrow> x \<in> set xs \<and> P x"
  by (induction xs) (auto split: if_splits)

text \<open>The loop of \<^verbatim>\<open>where\<close> stops at the first constraint that is not boolean.\<close>

lemma check_constraints_find:
  "check_constraints ext cs =
     (case find (\<lambda>c. return_type ext c \<noteq> Boolean ext) cs of
        None \<Rightarrow> Inr ()
      | Some c \<Rightarrow> Inl (ValueError (''view `where` expressions must be boolean predicates'',
                                   '' got `'' @ to_fhir_path ext c @ ''`'')))"
  by (induction cs) simp_all

lemma where_view_find:
  "where_view ext v cs =
     (case find (\<lambda>c. return_type ext c \<noteq> Boolean ext) cs of
        None \<Rightarrow> Inr (v\<lparr>constraints := constraints v @ cs\<rparr>)
      | Some c \<Rightarrow> Inl (ValueError (''view `where` expressions must be boolean predicates'',
                                   '' got `'' @ to_fhir_path ext c @ ''`'')))"
  by (simp add: where_view_def check_constraints_find View_def split: option.splits)

text \<open>No reserved word is empty or ends with an underscore.\<close>

lemma iskeyword_last: "iskeyword s \<Longrightarrow> s \<noteq> [] \<and> last s \<noteq> CHR ''_''"
  by (auto simp: iskeyword_def kwlist_def)

lemma endswith_underscore: "endswith name ''_'' = (\<exists>k. name = k @ ''_'')"
proof
  assume "endswith name ''_''"
  then have "drop (length name - 1) name = ''_''" and "1 \<le> length name"
    by (simp_all add: endswith_def)
  then have "name = take (length name - 1) name @ ''_''"
    by (metis append_take_drop_id)
  then show "\<exists>k. name = k @ ''_''" ..
next
  assume "\<exists>k. name = k @ ''_''"
  then show "endswith name ''_''" by (auto simp: endswith_def)
qed

lemma lookup_name_strip: "iskeyword k \<Longrightarrow> lookup_name (k @ ''_'') = k"
  by (simp add: lookup_name_def endswith_underscore)

lemma lookup_name_keep:
  "\<forall>k. name = k @ ''_'' \<longrightarrow> \<not> iskeyword k \<Longrightarrow> lookup_name name = name"
  by (auto simp: lookup_name_def endswith_underscore)

lemma lookup_name_double: "lookup_name (k @ ''__'') = k @ ''__''"
proof -
  have "\<not> iskeyword (k @ ''_'')" using iskeyword_last [of "k @ ''_''"] by auto
  moreover have "butlast (k @ ''__'') = k @ ''_''" by (simp add: butlast_append)
  ultimately show ?thesis by (simp add: lookup_name_def)
qed

lemma lookup_name_x: "lookup_name y = ''x'' \<Longrightarrow> y = ''x''"
  by (auto simp: lookup_name_def iskeyword_def kwlist_def split: if_splits)

text \<open>Each loop of \<^verbatim>\<open>__str__\<close> appends one line per item, in the order of the items.\<close>

lemma select_strings_loop_map:
  "select_strings_loop ext acc items =
     acc @ map (\<lambda>(name, builder). ''  '' @ name @ '': '' @ fhir_path ext builder) items"
  by (induction items arbitrary: acc) auto

lemma where_strings_loop_map:
  "where_strings_loop ext acc builders =
     acc @ map (\<lambda>builder. ''  '' @ fhir_path ext builder) builders"
  by (induction builders arbitrary: acc) auto

subsection \<open>Attribute resolution on a view\<close>

text \<open>
  C1. \<^verbatim>\<open>View.__getattr__\<close> resolves a name in two tiers. The lookup key is the name
  without its last character when the name ends with an underscore and the rest is a
  reserved word of Python, and the name itself otherwise; a name ending with two
  underscores is never shortened. When the view has fields, the key is looked up in the
  fields only, and a missing key is an \<^verbatim>\<open>AttributeError\<close> whose message holds the
  requested name. When the view has no fields, the lookup is the root builder's own
  attribute resolution. After \<^verbatim>\<open>v2 = v.select({'x': expr})\<close>, \<^verbatim>\<open>v2.x\<close> is \<^verbatim>\<open>expr\<close>
  and \<^verbatim>\<open>v2.y\<close> fails for every other name \<^verbatim>\<open>y\<close>.
\<close>

theorem getattr_two_tier:
  "(iskeyword k \<longrightarrow> lookup_name (k @ ''_'') = k)
   \<and> ((\<forall>k. name = k @ ''_'' \<longrightarrow> \<not> iskeyword k) \<longrightarrow> lookup_name name = name)
   \<and> lookup_name (k @ ''__'') = k @ ''__''
   \<and> (view_fields v \<noteq> [] \<longrightarrow>
        getattr_view ext v name =
          (case map_of (view_fields v) (lookup_name name) of
             None \<Rightarrow> Inl (AttributeError (''No such field '' @ name))
           | Some expression \<Rightarrow> Inr expression))
   \<and> (view_fields v = [] \<longrightarrow>
        getattr_view ext v name =
          (case builder_getattr ext (root_builder v) (lookup_name name) of
             Inl e \<Rightarrow> Inl e
           | Inr None \<Rightarrow> Inl (AttributeError (''No such field '' @ name))
           | Inr (Some expression) \<Rightarrow> Inr expression))
   \<and> getattr_view ext (select v [(''x'', expr)]) ''x'' = Inr expr
   \<and> (y \<noteq> ''x'' \<longrightarrow>
        getattr_view ext (select v [(''x'', expr)]) y
          = Inl (AttributeError (''No such field '' @ y)))"
proof (intro conjI impI)
  show "lookup_name (k @ ''__'') = k @ ''__''" by (rule lookup_name_double)
next
  assume "iskeyword k" then show "lookup_name (k @ ''_'') = k" by (rule lookup_name_strip)
next
  assume "\<forall>k. name = k @ ''_'' \<longrightarrow> \<not> iskeyword k"
  then show "lookup_name name = name" by (rule lookup_name_keep)
next
  assume "view_fields v \<noteq> []"
  then show "getattr_view ext v name =
          (case map_of (view_fields v) (lookup_name name) of
             None \<Rightarrow> Inl (AttributeError (''No such field '' @ name))
           | Some expression \<Rightarrow> Inr expression)"
    by (simp add: getattr_view_def Let_def split: option.splits)
next
  assume "view_fields v = []"
  then show "getattr_view ext v name =
          (case builder_getattr ext (root_builder v) (lookup_name name) of
             Inl e \<Rightarrow> Inl e
           | Inr None \<Rightarrow> Inl (AttributeError (''No such field '' @ name))
           | Inr (Some expression) \<Rightarrow> Inr expression)"
    by (simp add: getattr_view_def Let_def)
next
  have "lookup_name ''x'' = ''x''"
    by (simp add: lookup_name_def iskeyword_def kwlist_def)
  then show "getattr_view ext (select v [(''x'', expr)]) ''x'' = Inr expr"
    by (simp add: getattr_view_def select_def View_def)
next
  assume "y \<noteq> ''x''"
  then have "lookup_name y \<noteq> ''x''" using lookup_name_x by blast
  then show "getattr_view ext (select v [(''x'', expr)]) y
          = Inl (AttributeError (''No such field '' @ y))"
    by (simp add: getattr_view_def select_def View_def)
qed

theorem getattr_two_tier_witness:
  "lookup_name ''class_'' = ''class''
   \<and> lookup_name ''name_'' = ''name_''
   \<and> lookup_name ''class__'' = ''class__''
   \<and> getattr_view example_ext
        (select (example_view ''Patient'') [(''class'', name_expr)]) ''class_''
      = Inr name_expr
   \<and> getattr_view example_ext (example_view ''Patient'') ''class_''
      = Inr (''Patient.class'', ''String'')
   \<and> getattr_view example_ext (select (example_view ''Patient'') [(''x'', name_expr)]) ''x''
      = Inr name_expr
   \<and> getattr_view example_ext (select (example_view ''Patient'') [(''x'', name_expr)]) ''id''
      = Inl (AttributeError ''No such field id'')"
  using getattr_two_tier [where k = "''class''" and name = "''name_''"
          and v = "example_view ''Patient''" and ext = example_ext and expr = name_expr
          and y = "''id''"]
        getattr_two_tier [where k = "''class''" and name = "''class_''"
          and v = "select (example_view ''Patient'') [(''class'', name_expr)]"
          and ext = example_ext and expr = name_expr and y = "''id''"]
        getattr_two_tier [where k = "''class''" and name = "''class_''"
          and v = "example_view ''Patient''"
          and ext = example_ext and expr = name_expr and y = "''id''"]
  by (simp add: iskeyword_def kwlist_def select_def View_def example_view_def
        example_ext_def example_fields_def)

subsection \<open>The patient id of a resource that is not a patient\<close>

text \<open>
  C2. When the structure definition of the view is not \<^verbatim>\<open>Patient\<close> and has at least
  one path that refers to a patient, \<^verbatim>\<open>get_patient_id_expression\<close> takes the path
  \<^verbatim>\<open>subject\<close> when it is among the paths and the first path otherwise, resolves it
  with \<^verbatim>\<open>__getattr__\<close> of the root builder and asks the result for
  \<^verbatim>\<open>idFor('patient')\<close>. With both \<^verbatim>\<open>subject\<close> and \<^verbatim>\<open>performer\<close> among the paths the
  expression comes from \<^verbatim>\<open>subject\<close>.
\<close>

theorem patient_id_subject_preference:
  assumes "get_structure_definition ext (fhir_context v) (structdef_url v) = Inr structdef"
      and "structdef_id_value ext structdef \<noteq> ''Patient''"
      and "get_patient_reference_element_paths ext structdef = patients"
      and "patients \<noteq> []"
  shows "get_patient_id_expression ext v =
           patient_id_via ext v
             (if ''subject'' \<in> set patients then ''subject'' else patients ! 0)
         \<and> patient_id_via ext v patient_ref =
             (case builder_dunder_getattr ext (root_builder v) patient_ref of
                Inl e \<Rightarrow> Inl e
              | Inr field \<Rightarrow>
                  (case idFor ext field ''patient'' of
                     Inl e \<Rightarrow> Inl e
                   | Inr expression \<Rightarrow> Inr (Some expression)))"
  using assms
  by (cases patients) (simp_all add: get_patient_id_expression_def patient_id_via_def)

theorem patient_id_subject_preference_witness:
  "get_patient_id_expression example_ext (example_view ''Observation'')
     = Inr (Some (''Observation.subject.idFor(patient)'', ''String''))
   \<and> get_patient_id_expression example_ext (example_view ''Appointment'')
     = Inr (Some (''Appointment.participant.idFor(patient)'', ''String''))"
  using patient_id_subject_preference [where ext = example_ext
          and v = "example_view ''Observation''" and structdef = "''Observation''"
          and patients = "[''performer'', ''subject'']" and patient_ref = "''subject''"]
        patient_id_subject_preference [where ext = example_ext
          and v = "example_view ''Appointment''" and structdef = "''Appointment''"
          and patients = "[''participant'', ''performer'']"
          and patient_ref = "''participant''"]
  by (simp add: example_ext_def example_view_def View_def)

subsection \<open>Constraints that are not boolean\<close>

text \<open>
  C3. \<^verbatim>\<open>where\<close> raises exactly when one of the given constraints has a return type
  other than \<^verbatim>\<open>Boolean\<close>, however many boolean constraints come with it. The exception
  is a \<^verbatim>\<open>ValueError\<close> whose argument holds the FHIRPath text of such a constraint. When
  the call raises, the heap of views is the one before the call: no view is allocated
  and \<open>self\<close> is unchanged.
\<close>

theorem where_raises_iff:
  "((\<exists>e. where_view ext v cs = Inl e) = (\<exists>c \<in> set cs. return_type ext c \<noteq> Boolean ext))
   \<and> (\<forall>e. where_view ext v cs = Inl e \<longrightarrow>
         (\<exists>c \<in> set cs. return_type ext c \<noteq> Boolean ext
            \<and> e = ValueError (''view `where` expressions must be boolean predicates'',
                              '' got `'' @ to_fhir_path ext c @ ''`'')))
   \<and> (\<forall>e. snd (where_obj ext h self cs) = Inl e \<longrightarrow> fst (where_obj ext h self cs) = h)"
proof (intro conjI allI impI)
  show "(\<exists>e. where_view ext v cs = Inl e) = (\<exists>c \<in> set cs. return_type ext c \<noteq> Boolean ext)"
    by (auto simp: where_view_find find_None_iff split: option.splits
          dest: find_Some_member)
next
  fix e assume "where_view ext v cs = Inl e"
  then obtain c where "find (\<lambda>c. return_type ext c \<noteq> Boolean ext) cs = Some c"
    and e: "e = ValueError (''view `where` expressions must be boolean predicates'',
                              '' got `'' @ to_fhir_path ext c @ ''`'')"
    by (auto simp: where_view_find split: option.splits)
  then have "c \<in> set cs \<and> return_type ext c \<noteq> Boolean ext"
    by (auto dest: find_Some_member)
  with e show "\<exists>c \<in> set cs. return_type ext c \<noteq> Boolean ext
            \<and> e = ValueError (''view `where` expressions must be boolean predicates'',
                              '' got `'' @ to_fhir_path ext c @ ''`'')"
    by blast
next
  fix e assume "snd (where_obj ext h self cs) = Inl e"
  then show "fst (where_obj ext h self cs) = h"
    by (auto simp: where_obj_def new_object_def split: sum.splits)
qed

theorem where_raises_iff_witness:
  "where_view example_ext (example_view ''Patient'') [active_expr, name_expr, exists_expr]
     = Inl (ValueError (''view `where` expressions must be boolean predicates'',
                        '' got `Patient.name`''))
   \<and> where_view example_ext (example_view ''Patient'') [active_expr, exists_expr]
     = Inr (View ''Patient'' (''Patient'', ''Patient'') () [] [active_expr, exists_expr])
   \<and> fst (where_obj example_ext [example_view ''Patient''] 0
            [active_expr, name_expr, exists_expr])
     = [example_view ''Patient'']"
  using where_raises_iff [where ext = example_ext and v = "example_view ''Patient''"
          and cs = "[active_expr, name_expr, exists_expr]"
          and h = "[example_view ''Patient'']" and self = 0]
        where_raises_iff [where ext = example_ext and v = "example_view ''Patient''"
          and cs = "[active_expr, exists_expr]"
          and h = "[example_view ''Patient'']" and self = 0]
  by (simp add: where_obj_def where_view_def View_def example_view_def example_ext_def
        active_expr_def name_expr_def exists_expr_def)

subsection \<open>What \<^verbatim>\<open>select\<close> and \<^verbatim>\<open>where\<close> leave alone\<close>

text \<open>
  C4. A call of \<^verbatim>\<open>select\<close> or \<^verbatim>\<open>where\<close> on a view never changes that view: every
  object of the heap before the call, \<open>self\<close> among them, is the same after it, and the
  result is a new object. The new view has the resource type, the root builder and the
  context of \<open>self\<close>; after \<^verbatim>\<open>select\<close> it also has the constraints of \<open>self\<close>, and
  after \<^verbatim>\<open>where\<close> the fields of \<open>self\<close>.
\<close>

theorem select_where_frame:
  assumes "self < length h"
  shows "(case select_obj h self fs of
            (h', r) \<Rightarrow>
              take (length h) h' = h \<and> h' ! self = h ! self \<and> r \<noteq> self
              \<and> structdef_url (h' ! r) = structdef_url (h ! self)
              \<and> root_builder (h' ! r) = root_builder (h ! self)
              \<and> fhir_context (h' ! r) = fhir_context (h ! self)
              \<and> constraints (h' ! r) = constraints (h ! self)
              \<and> view_fields (h' ! r) = fs)
         \<and> (case where_obj ext h self cs of
              (h', Inl e) \<Rightarrow> h' = h
            | (h', Inr r) \<Rightarrow>
                take (length h) h' = h \<and> h' ! self = h ! self \<and> r \<noteq> self
                \<and> structdef_url (h' ! r) = structdef_url (h ! self)
                \<and> root_builder (h' ! r) = root_builder (h ! self)
                \<and> fhir_context (h' ! r) = fhir_context (h ! self)
                \<and> view_fields (h' ! r) = view_fields (h ! self)
                \<and> constraints (h' ! r) = constraints (h ! self) @ cs)"
proof
  show "case select_obj h self fs of
            (h', r) \<Rightarrow>
              take (length h) h' = h \<and> h' ! self = h ! self \<and> r \<noteq> self
              \<and> structdef_url (h' ! r) = structdef_url (h ! self)
              \<and> root_builder (h' ! r) = root_builder (h ! self)
              \<and> fhir_context (h' ! r) = fhir_context (h ! self)
              \<and> constraints (h' ! r) = constraints (h ! self)
              \<and> view_fields (h' ! r) = fs"
    using assms by (simp add: select_obj_def new_object_def select_def View_def nth_append)
next
  show "case where_obj ext h self cs of
              (h', Inl e) \<Rightarrow> h' = h
            | (h', Inr r) \<Rightarrow>
                take (length h) h' = h \<and> h' ! self = h ! self \<and> r \<noteq> self
                \<and> structdef_url (h' ! r) = structdef_url (h ! self)
                \<and> root_builder (h' ! r) = root_builder (h ! self)
                \<and> fhir_context (h' ! r) = fhir_context (h ! self)
                \<and> view_fields (h' ! r) = view_fields (h ! self)
                \<and> constraints (h' ! r) = constraints (h ! self) @ cs"
    using assms
    by (cases "check_constraints ext cs")
       (simp_all add: where_obj_def where_view_def new_object_def View_def nth_append)
qed

theorem select_where_frame_witness:
  "select_obj [example_view ''Patient''] 0 [(''name'', name_expr)]
     = ([example_view ''Patient'',
         View ''Patient'' (''Patient'', ''Patient'') () [(''name'', name_expr)] []], 1)
   \<and> where_obj example_ext [example_view ''Patient''] 0 [active_expr]
     = ([example_view ''Patient'',
         View ''Patient'' (''Patient'', ''Patient'') () [] [active_expr]], Inr 1)"
  using select_where_frame [where self = 0 and h = "[example_view ''Patient'']"
          and fs = "[(''name'', name_expr)]" and ext = example_ext and cs = "[active_expr]"]
  by (simp add: select_obj_def where_obj_def where_view_def new_object_def select_def
        View_def example_view_def example_ext_def active_expr_def name_expr_def)

subsection \<open>The order of the constraints\<close>

text \<open>
  C5. For boolean expressions \<^verbatim>\<open>a\<close> and \<^verbatim>\<open>b\<close>, \<^verbatim>\<open>v.where(a).where(b)\<close> and
  \<^verbatim>\<open>v.where(a, b)\<close> both succeed and give the same view, whose constraints are those of
  \<^verbatim>\<open>v\<close> followed by \<^verbatim>\<open>a\<close> and \<^verbatim>\<open>b\<close> in this order. Nothing asks \<^verbatim>\<open>a\<close> and \<^verbatim>\<open>b\<close>
  to differ or to be new to \<^verbatim>\<open>v\<close>.
\<close>

theorem where_accumulates:
  assumes "return_type ext a = Boolean ext" and "return_type ext b = Boolean ext"
  shows "\<exists>v1 v2. where_view ext v [a] = Inr v1 \<and> where_view ext v1 [b] = Inr v2
           \<and> where_view ext v [a, b] = Inr v2
           \<and> constraints v2 = constraints v @ [a, b]"
  using assms by (simp add: where_view_def View_def)

theorem where_accumulates_witness:
  "\<exists>v1 v2. where_view example_ext (example_view ''Patient'') [active_expr] = Inr v1
     \<and> where_view example_ext v1 [active_expr] = Inr v2
     \<and> where_view example_ext (example_view ''Patient'') [active_expr, active_expr] = Inr v2
     \<and> constraints v2 = [active_expr, active_expr]"
  using where_accumulates [where ext = example_ext and a = active_expr and b = active_expr
          and v = "example_view ''Patient''"]
  by (simp add: example_ext_def active_expr_def example_view_def View_def)

subsection \<open>Selecting twice\<close>

text \<open>
  C6. \<^verbatim>\<open>v.select(f).select(f)\<close> is the same view as \<^verbatim>\<open>v.select(f)\<close>: the same
  resource type, the same fields, the same constraints (and the same root builder and
  context).
\<close>

theorem select_idempotent:
  "select (select v f) f = select v f
   \<and> structdef_url (select (select v f) f) = structdef_url (select v f)
   \<and> view_fields (select (select v f) f) = view_fields (select v f)
   \<and> constraints (select (select v f) f) = constraints (select v f)"
  by (simp add: select_def View_def)

subsection \<open>The patient id of a patient\<close>

text \<open>
  C7. When the identifier of the structure definition is \<^verbatim>\<open>Patient\<close>,
  \<^verbatim>\<open>get_patient_id_expression\<close> returns the attribute \<^verbatim>\<open>id\<close> of the root builder. The
  enumeration of the paths that refer to a patient has no part in the result: whatever
  function stands for it, the result is the same.
\<close>

theorem patient_id_of_patient:
  assumes "get_structure_definition ext (fhir_context v) (structdef_url v) = Inr structdef"
      and "structdef_id_value ext structdef = ''Patient''"
  shows "get_patient_id_expression (ext\<lparr>get_patient_reference_element_paths := paths\<rparr>) v
           = builder_getattr ext (root_builder v) ''id''"
  using assms by (simp add: get_patient_id_expression_def)

theorem patient_id_of_patient_witness:
  "get_patient_id_expression
     (example_ext\<lparr>get_patient_reference_element_paths := (\<lambda>structdef. [''subject''])\<rparr>)
     (example_view ''Patient'')
   = Inr (Some (''Patient.id'', ''String''))"
  using patient_id_of_patient [where ext = example_ext and v = "example_view ''Patient''"
          and structdef = "''Patient''" and paths = "\<lambda>structdef. [''subject'']"]
  by (simp add: example_ext_def example_view_def View_def example_fields_def)

subsection \<open>No patient reference\<close>

text \<open>
  C8. When the structure definition is not \<^verbatim>\<open>Patient\<close> and has no path that refers to
  a patient, \<^verbatim>\<open>get_patient_id_expression\<close> returns \<^verbatim>\<open>None\<close>; it does not raise.
\<close>

theorem patient_id_absent:
  assumes "get_structure_definition ext (fhir_context v) (structdef_url v) = Inr structdef"
      and "structdef_id_value ext structdef \<noteq> ''Patient''"
      and "get_patient_reference_element_paths ext structdef = []"
  shows "get_patient_id_expression ext v = Inr None"
  using assms by (simp add: get_patient_id_expression_def)

theorem patient_id_absent_witness:
  "get_patient_id_expression example_ext (example_view ''Medication'') = Inr None"
  using patient_id_absent [where ext = example_ext and v = "example_view ''Medication''"
          and structdef = "''Medication''"]
  by (simp add: example_ext_def example_view_def View_def)

subsection \<open>The text of a view\<close>

text \<open>
  C9. \<^verbatim>\<open>str(view)\<close> is a function of the view, so repeated calls give the same text, and
  the text is the template: \<^verbatim>\<open>View<\<close>, the resource type, \<^verbatim>\<open>.select(\<close>, a line
  \<^verbatim>\<open>name: fhirpath\<close> (indented by two spaces) for each field in the order of the
  mapping, joined by a comma and a newline, then \<^verbatim>\<open>)\<close>; exactly when there are
  constraints, \<^verbatim>\<open>.where(\<close>, a line for each constraint in the order of the sequence,
  joined alike, and \<^verbatim>\<open>)\<close>; then the closing \<^verbatim>\<open>>\<close>.
\<close>

theorem str_view_template:
  "str_view ext v =
     ''View<'' @ structdef_url v @ ''.select('' @ newline
     @ join ('','' @ newline)
         (map (\<lambda>(name, builder). ''  '' @ name @ '': '' @ fhir_path ext builder)
            (view_fields v))
     @ newline @ '')''
     @ (if constraints v = [] then []
        else ''.where('' @ newline
             @ join ('','' @ newline)
                 (map (\<lambda>builder. ''  '' @ fhir_path ext builder) (constraints v))
             @ newline @ '')'')
     @ ''>''"
  by (simp add: str_view_def select_strings_loop_map where_strings_loop_map)

theorem str_view_template_witness:
  "str_view example_ext
     (View ''Patient'' (''Patient'', ''Patient'') ()
        [(''name'', name_expr), (''active'', active_expr)] [active_expr, exists_expr])
   = ''View<Patient.select('' @ newline @ ''  name: Patient.name,'' @ newline
     @ ''  active: Patient.active'' @ newline @ '').where('' @ newline
     @ ''  Patient.active,'' @ newline @ ''  Patient.name.exists()'' @ newline @ '')>''
   \<and> str_view example_ext
     (View ''Patient'' (''Patient'', ''Patient'') () [(''name'', name_expr)] [])
   = ''View<Patient.select('' @ newline @ ''  name: Patient.name'' @ newline @ '')>''"
  using str_view_template [where ext = example_ext
          and v = "View ''Patient'' (''Patient'', ''Patient'') ()
                     [(''name'', name_expr), (''active'', active_expr)]
                     [active_expr, exists_expr]"]
        str_view_template [where ext = example_ext
          and v = "View ''Patient'' (''Patient'', ''Patient'') () [(''name'', name_expr)] []"]
  by (simp add: View_def example_ext_def name_expr_def active_expr_def exists_expr_def)

subsection \<open>Selecting no field\<close>

text \<open>
  C10. \<^verbatim>\<open>v.select({})\<close> does not restrict the view to no field. Attribute resolution
  and \<^verbatim>\<open>__dir__\<close> on it give what they give on a view built with no fields and no
  constraints over the same root builder: the lookup goes to the root builder, so a name
  that the root builder resolves is resolved, and \<^verbatim>\<open>__dir__\<close> lists the fields of the
  root builder followed by the names of the class.
\<close>

theorem select_empty_is_unscoped:
  "getattr_view ext (select v []) name
     = getattr_view ext (View (structdef_url v) (root_builder v) (fhir_context v) [] []) name
   \<and> getattr_view ext (select v []) name
     = (case builder_getattr ext (root_builder v) (lookup_name name) of
          Inl e \<Rightarrow> Inl e
        | Inr None \<Rightarrow> Inl (AttributeError (''No such field '' @ name))
        | Inr (Some expression) \<Rightarrow> Inr expression)
   \<and> (builder_getattr ext (root_builder v) (lookup_name name) = Inr (Some expression)
        \<longrightarrow> getattr_view ext (select v []) name = Inr expression)
   \<and> dir_view ext (select v [])
     = dir_view ext (View (structdef_url v) (root_builder v) (fhir_context v) [] [])
   \<and> dir_view ext (select v []) = fhir_path_fields ext (root_builder v) @ dir_type ext"
  by (simp add: getattr_view_def dir_view_def select_def View_def)

theorem select_empty_is_unscoped_witness:
  "getattr_view example_ext
     (select (select (example_view ''Patient'') [(''x'', name_expr)]) []) ''class_''
     = Inr (''Patient.class'', ''String'')
   \<and> getattr_view example_ext
     (select (example_view ''Patient'') [(''x'', name_expr)]) ''class_''
     = Inl (AttributeError ''No such field class_'')
   \<and> dir_view example_ext (select (select (example_view ''Patient'') [(''x'', name_expr)]) [])
     = [''id'', ''active'', ''class'', ''subject'', ''performer'', ''select'', ''where'']"
  using select_empty_is_unscoped [where ext = example_ext
          and v = "select (example_view ''Patient'') [(''x'', name_expr)]"
          and name = "''class_''" and expression = "(''Patient.class'', ''String'')"]
  by (simp add: getattr_view_def dir_view_def select_def View_def example_view_def
        example_ext_def example_fields_def lookup_name_def endswith_def iskeyword_def
        kwlist_def name_expr_def)

end
